theory Spec2Isabelle
  imports Main "HOL-Library.AList" "HOL-Library.Sublist"
begin

section \<open>The document store that \<^verbatim>\<open>mongo-init.js\<close> runs against\<close>

text \<open>
  \<^verbatim>\<open>backup/docker/mongo-init.js\<close> is a straight-line sequence of calls on the shell's
  \<^verbatim>\<open>db\<close> handle. The calls are embedded as functions on the state of the server; what each
  call does there is MongoDB's documented behaviour:
  \<^item> \<^verbatim>\<open>createUser\<close> throws when the database already has a user of that name;
  \<^item> \<^verbatim>\<open>createCollection\<close> throws when the collection exists; a new collection has the
    unique index on \<^verbatim>\<open>_id\<close>;
  \<^item> \<^verbatim>\<open>createIndex\<close> is a no-op when the same index exists, throws when an index on the
    same key has other options, and throws when a unique index is asked for over
    documents that already share a key;
  \<^item> \<^verbatim>\<open>insertOne\<close> gives a document without \<^verbatim>\<open>_id\<close> a generated one, and throws
    (writing nothing) when a unique index already holds the document's key; a document
    without the indexed field is indexed under \<^verbatim>\<open>null\<close>;
  \<^item> \<^verbatim>\<open>createIndex\<close> and \<^verbatim>\<open>insertOne\<close> create a missing collection on the fly.

  Field values are the scalar BSON values; strings are their UTF-8 bytes, as BSON stores
  them. The number literals of the script (\<^verbatim>\<open>1\<close>, \<^verbatim>\<open>30\<close>) are integral.
\<close>

datatype bson = BNull | BBool bool | BInt int | BStr string | BDate nat | BObjectId nat

datatype bson_type = TNull | TBool | TInt | TString | TDate | TObjectId

fun bson_type_of :: "bson \<Rightarrow> bson_type" where
  "bson_type_of BNull = TNull"
| "bson_type_of (BBool b) = TBool"
| "bson_type_of (BInt i) = TInt"
| "bson_type_of (BStr s) = TString"
| "bson_type_of (BDate t) = TDate"
| "bson_type_of (BObjectId n) = TObjectId"

type_synonym document = "(string \<times> bson) list"

record index_spec =
  idx_field :: string
  idx_unique :: bool

record collection =
  coll_docs :: "document list"
  coll_indexes :: "index_spec list"

record role_grant =
  role_name :: string
  role_db :: string

record db_user =
  user_name :: string
  user_pwd :: string
  user_roles :: "role_grant list"

record database =
  db_users :: "db_user list"
  db_colls :: "(string \<times> collection) list"

record server =
  srv_dbs :: "string \<Rightarrow> database option"
  srv_next_oid :: nat

datatype mongo_error =
    UserAlreadyExists string
  | NamespaceExists string string
  | DuplicateKey string string string
  | IndexOptionsConflict string string string

definition fresh_server :: server where
  "fresh_server = \<lparr>srv_dbs = Map.empty, srv_next_oid = 0\<rparr>"

definition empty_database :: database where
  "empty_database = \<lparr>db_users = [], db_colls = []\<rparr>"

definition new_collection :: collection where
  "new_collection = \<lparr>coll_docs = [], coll_indexes = [\<lparr>idx_field = ''_id'', idx_unique = True\<rparr>]\<rparr>"

text \<open>A database or collection that does not exist yet reads as an empty one.\<close>

definition get_db :: "server \<Rightarrow> string \<Rightarrow> database" where
  "get_db srv dbn = (case srv_dbs srv dbn of None \<Rightarrow> empty_database | Some d \<Rightarrow> d)"

definition get_coll :: "database \<Rightarrow> string \<Rightarrow> collection" where
  "get_coll d c = (case map_of (db_colls d) c of None \<Rightarrow> new_collection | Some k \<Rightarrow> k)"

definition put_coll :: "server \<Rightarrow> string \<Rightarrow> string \<Rightarrow> collection \<Rightarrow> server" where
  "put_coll srv dbn c k =
     srv\<lparr>srv_dbs := (srv_dbs srv)(dbn \<mapsto>
       (get_db srv dbn)\<lparr>db_colls := AList.update c k (db_colls (get_db srv dbn))\<rparr>)\<rparr>"

definition docs_of :: "server \<Rightarrow> string \<Rightarrow> string \<Rightarrow> document list" where
  "docs_of srv dbn c = coll_docs (get_coll (get_db srv dbn) c)"

definition collection_names :: "server \<Rightarrow> string \<Rightarrow> string list" where
  "collection_names srv dbn = map fst (db_colls (get_db srv dbn))"

text \<open>The key a single-field index files a document under: a missing field counts as null.\<close>

definition index_key :: "string \<Rightarrow> document \<Rightarrow> bson" where
  "index_key f d = (case map_of d f of None \<Rightarrow> BNull | Some v \<Rightarrow> v)"

definition createUser :: "string \<Rightarrow> db_user \<Rightarrow> server \<Rightarrow> mongo_error + server" where
  "createUser dbn u srv =
     (let d = get_db srv dbn in
      if user_name u \<in> set (map user_name (db_users d)) then Inl (UserAlreadyExists (user_name u))
      else Inr (srv\<lparr>srv_dbs := (srv_dbs srv)(dbn \<mapsto> d\<lparr>db_users := db_users d @ [u]\<rparr>)\<rparr>))"

definition createCollection :: "string \<Rightarrow> string \<Rightarrow> server \<Rightarrow> mongo_error + server" where
  "createCollection dbn c srv =
     (if map_of (db_colls (get_db srv dbn)) c \<noteq> None then Inl (NamespaceExists dbn c)
      else Inr (put_coll srv dbn c new_collection))"

definition createIndex :: "string \<Rightarrow> string \<Rightarrow> string \<Rightarrow> bool \<Rightarrow> server \<Rightarrow> mongo_error + server" where
  "createIndex dbn c f uniq srv =
     (let k = get_coll (get_db srv dbn) c in
      case find (\<lambda>i. idx_field i = f) (coll_indexes k) of
        Some i \<Rightarrow>
          if idx_unique i = uniq then Inr (put_coll srv dbn c k)
          else Inl (IndexOptionsConflict dbn c f)
      | None \<Rightarrow>
          if uniq \<and> \<not> distinct (map (index_key f) (coll_docs k)) then Inl (DuplicateKey dbn c f)
          else Inr (put_coll srv dbn c
                 (k\<lparr>coll_indexes := coll_indexes k @ [\<lparr>idx_field = f, idx_unique = uniq\<rparr>]\<rparr>)))"

text \<open>The unique indexes of a collection that already hold the key of a document.\<close>

definition key_clashes :: "collection \<Rightarrow> document \<Rightarrow> index_spec list" where
  "key_clashes k doc =
     filter (\<lambda>i. idx_unique i \<and>
                 index_key (idx_field i) doc \<in> set (map (index_key (idx_field i)) (coll_docs k)))
       (coll_indexes k)"

definition insertOne :: "string \<Rightarrow> string \<Rightarrow> document \<Rightarrow> server \<Rightarrow> mongo_error + server" where
  "insertOne dbn c doc srv =
     (let k = get_coll (get_db srv dbn) c;
          generated = (map_of doc ''_id'' = None);
          doc' = (if generated then (''_id'', BObjectId (srv_next_oid srv)) # doc else doc)
      in case key_clashes k doc' of
           i # _ \<Rightarrow> Inl (DuplicateKey dbn c (idx_field i))
         | [] \<Rightarrow>
             Inr ((put_coll srv dbn c (k\<lparr>coll_docs := coll_docs k @ [doc']\<rparr>))
                    \<lparr>srv_next_oid := (if generated then Suc (srv_next_oid srv) else srv_next_oid srv)\<rparr>))"

text \<open>
  A call that throws writes nothing: \<open>attempt\<close> is the server after a call, whether it
  returned or threw.
\<close>

definition attempt :: "(server \<Rightarrow> mongo_error + server) \<Rightarrow> server \<Rightarrow> server" where
  "attempt call srv = (case call srv of Inl e \<Rightarrow> srv | Inr srv' \<Rightarrow> srv')"

section \<open>The bootstrap script \<^verbatim>\<open>mongo-init.js\<close>\<close>

text \<open>
  The script has no branch, loop or \<^verbatim>\<open>try\<close>: it is the list of its calls, in order, all on
  the handle \<^verbatim>\<open>db = db.getSiblingDB('tgbot')\<close>. The shell runs them one after the other;
  the first call that throws ends the script (nothing catches the exception), and what
  the earlier calls wrote stays written. A run is recorded with the calls it issued.
\<close>

datatype request =
    CreateUser db_user
  | CreateCollection string
  | CreateIndex string string bool
  | InsertOne string document

fun issue :: "string \<Rightarrow> request \<Rightarrow> server \<Rightarrow> mongo_error + server" where
  "issue dbn (CreateUser u) srv = createUser dbn u srv"
| "issue dbn (CreateCollection c) srv = createCollection dbn c srv"
| "issue dbn (CreateIndex c f uniq) srv = createIndex dbn c f uniq srv"
| "issue dbn (InsertOne c doc) srv = insertOne dbn c doc srv"

record outcome =
  issued :: "request list"
  failure :: "mongo_error option"
  final :: server

fun run_script :: "string \<Rightarrow> request list \<Rightarrow> server \<Rightarrow> outcome" where
  "run_script dbn [] srv = \<lparr>issued = [], failure = None, final = srv\<rparr>"
| "run_script dbn (r # rs) srv =
     (case issue dbn r srv of
        Inl e \<Rightarrow> \<lparr>issued = [r], failure = Some e, final = srv\<rparr>
      | Inr srv' \<Rightarrow> (let out = run_script dbn rs srv' in out\<lparr>issued := r # issued out\<rparr>))"

definition admin_user :: db_user where
  "admin_user =
     \<lparr>user_name = ''admin'', user_pwd = ''465465Daz'',
      user_roles = [\<lparr>role_name = ''readWrite'', role_db = ''tgbot''\<rparr>]\<rparr>"

text \<open>The welcome message is Chinese text followed by \<^verbatim>\<open>Telegram Bot!\<close>; these are its UTF-8 bytes.\<close>

definition welcome_message :: string where
  "welcome_message =
     [CHR 0xE6, CHR 0xAC, CHR 0xA2, CHR 0xE8, CHR 0xBF, CHR 0x8E,
      CHR 0xE4, CHR 0xBD, CHR 0xBF, CHR 0xE7, CHR 0x94, CHR 0xA8] @ ''Telegram Bot!''"

text \<open>\<^verbatim>\<open>new Date()\<close> reads the clock: the time is a parameter of the script.\<close>

definition settings_doc :: "nat \<Rightarrow> document" where
  "settings_doc now =
     [(''_id'', BStr ''bot_settings''),
      (''auto_delete_messages'', BBool True),
      (''auto_delete_interval'', BInt 30),
      (''welcome_message'', BStr welcome_message),
      (''created_at'', BDate now)]"

definition mongo_init_requests :: "nat \<Rightarrow> request list" where
  "mongo_init_requests now =
     [CreateUser admin_user,
      CreateCollection ''users'',
      CreateCollection ''messages'',
      CreateCollection ''groups'',
      CreateCollection ''settings'',
      CreateIndex ''users'' ''user_id'' True,
      CreateIndex ''messages'' ''message_id'' False,
      CreateIndex ''messages'' ''chat_id'' False,
      CreateIndex ''messages'' ''date'' False,
      CreateIndex ''groups'' ''group_id'' True,
      InsertOne ''settings'' (settings_doc now)]"

definition mongo_init :: "nat \<Rightarrow> server \<Rightarrow> outcome" where
  "mongo_init now srv = run_script ''tgbot'' (mongo_init_requests now) srv"

text \<open>The server a first run leaves behind, spelled out.\<close>

definition bootstrapped :: "nat \<Rightarrow> server" where
  "bootstrapped now =
     \<lparr>srv_dbs = Map.empty(''tgbot'' \<mapsto>
        \<lparr>db_users = [admin_user],
         db_colls =
           [(''users'', \<lparr>coll_docs = [],
               coll_indexes = [\<lparr>idx_field = ''_id'', idx_unique = True\<rparr>,
                               \<lparr>idx_field = ''user_id'', idx_unique = True\<rparr>]\<rparr>),
            (''messages'', \<lparr>coll_docs = [],
               coll_indexes = [\<lparr>idx_field = ''_id'', idx_unique = True\<rparr>,
                               \<lparr>idx_field = ''message_id'', idx_unique = False\<rparr>,
                               \<lparr>idx_field = ''chat_id'', idx_unique = False\<rparr>,
                               \<lparr>idx_field = ''date'', idx_unique = False\<rparr>]\<rparr>),
            (''groups'', \<lparr>coll_docs = [],
               coll_indexes = [\<lparr>idx_field = ''_id'', idx_unique = True\<rparr>,
                               \<lparr>idx_field = ''group_id'', idx_unique = True\<rparr>]\<rparr>),
            (''settings'', \<lparr>coll_docs = [settings_doc now],
               coll_indexes = [\<lparr>idx_field = ''_id'', idx_unique = True\<rparr>]\<rparr>)]\<rparr>),
      srv_next_oid = 0\<rparr>"

section \<open>Later traffic: inserts into the bootstrapped store\<close>

text \<open>
  The states of the bootstrapped database are the ones a sequence of insert attempts
  (into any collection of any database, succeeding or not) leads to.
\<close>

fun apply_inserts :: "(string \<times> string \<times> document) list \<Rightarrow> server \<Rightarrow> server" where
  "apply_inserts [] srv = srv"
| "apply_inserts ((dbn, c, doc) # rest) srv = apply_inserts rest (attempt (insertOne dbn c doc) srv)"

text \<open>A collection keeps a field unique: it has the unique index and no two documents share a key.\<close>

definition keeps_unique :: "server \<Rightarrow> string \<Rightarrow> string \<Rightarrow> string \<Rightarrow> bool" where
  "keeps_unique srv dbn c f =
     ((\<exists>i \<in> set (coll_indexes (get_coll (get_db srv dbn) c)). idx_field i = f \<and> idx_unique i) \<and>
      distinct (map (index_key f) (docs_of srv dbn c)))"

section \<open>The container build: \<^verbatim>\<open>Dockerfile\<close>\<close>

text \<open>
  A build runs the instructions in order over the image configuration. \<^verbatim>\<open>RUN\<close> and
  \<^verbatim>\<open>COPY\<close> change the filesystem layers only, which stay abstract here. A word such as
  \<^verbatim>\<open>${WEB_PORT}\<close> is expanded from the environment set so far, then from the build
  arguments in scope. \<^verbatim>\<open>ARG\<close> takes the value given on the command line
  (\<^verbatim>\<open>--build-arg\<close>) and its default otherwise. \<^verbatim>\<open>EXPOSE\<close> reads its expanded word as a
  port number: decimal digits, and a number beyond 65535 fails the build. The other
  forms Docker reads there (a range, a protocol suffix) cannot come from a port number;
  they are not modelled and count as failures. The base image
  \<^verbatim>\<open>python:3.11-slim\<close> is recorded by name: it exposes no port, and what else it
  configures (its own environment) is left out.
\<close>

datatype piece = Lit string | Var string

type_synonym word = "piece list"

datatype instruction =
    FROM string
  | WORKDIR string
  | ENV string word
  | RUN string
  | COPY string string
  | ARG string "string option"
  | EXPOSE word
  | CMD "string list"

record image =
  img_base :: string
  img_workdir :: string
  img_env :: "(string \<times> string) list"
  img_exposed :: "nat list"
  img_cmd :: "string list"

record build_state =
  bs_image :: image
  bs_args :: "(string \<times> string) list"

datatype build_error = InvalidContainerPort string

definition lookup_var :: "build_state \<Rightarrow> string \<Rightarrow> string" where
  "lookup_var st n =
     (case map_of (img_env (bs_image st)) n of
        Some v \<Rightarrow> v
      | None \<Rightarrow> (case map_of (bs_args st) n of Some v \<Rightarrow> v | None \<Rightarrow> []))"

fun expand :: "build_state \<Rightarrow> word \<Rightarrow> string" where
  "expand st [] = []"
| "expand st (Lit s # w) = s @ expand st w"
| "expand st (Var n # w) = lookup_var st n @ expand st w"

definition is_digit :: "char \<Rightarrow> bool" where
  "is_digit c = (48 \<le> (of_char c :: nat) \<and> (of_char c :: nat) \<le> 57)"

fun parse_decimal :: "nat \<Rightarrow> string \<Rightarrow> nat option" where
  "parse_decimal acc [] = Some acc"
| "parse_decimal acc (c # cs) =
     (if is_digit c then parse_decimal (acc * 10 + (of_char c - 48)) cs else None)"

definition parse_port :: "string \<Rightarrow> nat option" where
  "parse_port s =
     (if s = [] then None
      else case parse_decimal 0 s of
             None \<Rightarrow> None
           | Some n \<Rightarrow> if n \<le> 65535 then Some n else None)"

fun build_step :: "(string \<times> string) list \<Rightarrow> instruction \<Rightarrow> build_state \<Rightarrow> build_error + build_state" where
  "build_step given (FROM b) st = Inr (st\<lparr>bs_image := (bs_image st)\<lparr>img_base := b\<rparr>\<rparr>)"
| "build_step given (WORKDIR d) st = Inr (st\<lparr>bs_image := (bs_image st)\<lparr>img_workdir := d\<rparr>\<rparr>)"
| "build_step given (ENV n w) st =
     Inr (st\<lparr>bs_image := (bs_image st)\<lparr>img_env := AList.update n (expand st w) (img_env (bs_image st))\<rparr>\<rparr>)"
| "build_step given (RUN sh) st = Inr st"
| "build_step given (COPY src dst) st = Inr st"
| "build_step given (ARG n dflt) st =
     Inr (st\<lparr>bs_args := AList.update n
            (case map_of given n of
               Some v \<Rightarrow> v
             | None \<Rightarrow> (case dflt of Some d \<Rightarrow> d | None \<Rightarrow> []))
            (bs_args st)\<rparr>)"
| "build_step given (EXPOSE w) st =
     (case parse_port (expand st w) of
        None \<Rightarrow> Inl (InvalidContainerPort (expand st w))
      | Some p \<Rightarrow> Inr (st\<lparr>bs_image := (bs_image st)\<lparr>img_exposed := img_exposed (bs_image st) @ [p]\<rparr>\<rparr>))"
| "build_step given (CMD argv) st = Inr (st\<lparr>bs_image := (bs_image st)\<lparr>img_cmd := argv\<rparr>\<rparr>)"

fun build_steps :: "(string \<times> string) list \<Rightarrow> instruction list \<Rightarrow> build_state \<Rightarrow> build_error + build_state" where
  "build_steps given [] st = Inr st"
| "build_steps given (i # is) st =
     (case build_step given i st of Inl e \<Rightarrow> Inl e | Inr st' \<Rightarrow> build_steps given is st')"

definition scratch_state :: build_state where
  "scratch_state =
     \<lparr>bs_image = \<lparr>img_base = [], img_workdir = ''/'', img_env = [], img_exposed = [], img_cmd = []\<rparr>,
      bs_args = []\<rparr>"

definition dockerfile :: "instruction list" where
  "dockerfile =
     [FROM ''python:3.11-slim'',
      WORKDIR ''/app'',
      ENV ''TZ'' [Lit ''Asia/Shanghai''],
      RUN ''ln -snf /usr/share/zoneinfo/$TZ /etc/localtime && echo $TZ > /etc/timezone'',
      COPY ''requirements.txt'' ''.'',
      RUN ''pip install --no-cache-dir -r requirements.txt'',
      COPY ''.'' ''.'',
      RUN ''mkdir -p logs'',
      ARG ''WEB_PORT'' (Some ''7000''),
      ENV ''WEB_PORT'' [Var ''WEB_PORT''],
      EXPOSE [Var ''WEB_PORT''],
      CMD [''python'', ''main.py'']]"

text \<open>The decimal numeral of a number, as an operator writes a port on the command line.\<close>

fun decimal :: "nat \<Rightarrow> string" where
  "decimal n = (if n < 10 then [char_of (48 + n)] else decimal (n div 10) @ [char_of (48 + n mod 10)])"

declare decimal.simps [simp del]

text \<open>
  \<^verbatim>\<open>docker build .\<close> (no argument) and \<^verbatim>\<open>docker build --build-arg WEB_PORT=p .\<close>, with
  the port \<open>p\<close> as a number.
\<close>

definition docker_build :: "nat option \<Rightarrow> build_error + image" where
  "docker_build web_port =
     (case build_steps (case web_port of None \<Rightarrow> [] | Some p \<Rightarrow> [(''WEB_PORT'', decimal p)])
             dockerfile scratch_state of
        Inl e \<Rightarrow> Inl e
      | Inr st \<Rightarrow> Inr (bs_image st))"

section \<open>Regular expressions of the scripts\<close>

text \<open>
  The two patterns of the scripts, \<^verbatim>\<open>^[Yy]$\<close> (bash, \<^verbatim>\<open>=~\<close>) and
  \<^verbatim>\<open>axios.defaults.baseURL = .*\<close> (sed), use literal characters, the dot, a bracket list,
  the star and the two anchors. \<open>regex_of\<close> reads that part of the POSIX syntax; a match
  is the longest one at the leftmost position where the pattern matches.
\<close>

datatype atom = Chr char | Dot | Bracket "char list"

datatype item = One atom | Star atom

datatype regex_token = TAtom atom | TStar

record regex =
  re_bol :: bool
  re_items :: "item list"
  re_eol :: bool

fun regex_tokens :: "char list option \<Rightarrow> string \<Rightarrow> regex_token list" where
  "regex_tokens open_list [] = []"
| "regex_tokens None (c # cs) =
     (if c = CHR ''['' then regex_tokens (Some []) cs
      else if c = CHR ''*'' then TStar # regex_tokens None cs
      else if c = CHR ''.'' then TAtom Dot # regex_tokens None cs
      else TAtom (Chr c) # regex_tokens None cs)"
| "regex_tokens (Some acc) (c # cs) =
     (if c = CHR '']'' then TAtom (Bracket acc) # regex_tokens None cs
      else regex_tokens (Some (acc @ [c])) cs)"

fun regex_items :: "regex_token list \<Rightarrow> item list" where
  "regex_items [] = []"
| "regex_items (TAtom a # TStar # ts) = Star a # regex_items ts"
| "regex_items (TAtom a # ts) = One a # regex_items ts"
| "regex_items (TStar # ts) = One (Chr (CHR ''*'')) # regex_items ts"

definition regex_of :: "string \<Rightarrow> regex" where
  "regex_of s =
     (let bol = (s \<noteq> [] \<and> hd s = CHR ''^'');
          s1 = (if bol then tl s else s);
          eol = (s1 \<noteq> [] \<and> last s1 = CHR ''$'');
          s2 = (if eol then butlast s1 else s1)
      in \<lparr>re_bol = bol, re_items = regex_items (regex_tokens None s2), re_eol = eol\<rparr>)"

fun atom_ok :: "atom \<Rightarrow> char \<Rightarrow> bool" where
  "atom_ok (Chr a) c = (a = c)"
| "atom_ok Dot c = True"
| "atom_ok (Bracket cs) c = (c \<in> set cs)"

text \<open>The lengths of all the prefixes of a text that a sequence of items matches.\<close>

fun match_lens :: "item list \<Rightarrow> string \<Rightarrow> nat list" where
  "match_lens [] s = [0]"
| "match_lens (One a # r) [] = []"
| "match_lens (One a # r) (c # cs) = (if atom_ok a c then map Suc (match_lens r cs) else [])"
| "match_lens (Star a # r) [] = match_lens r []"
| "match_lens (Star a # r) (c # cs) =
     (if atom_ok a c then map Suc (match_lens (Star a # r) cs) else []) @ match_lens r (c # cs)"

text \<open>
  The longest match starting where the text starts; \<open>at_bol\<close> says whether that is the
  start of the line.
\<close>

definition match_at :: "regex \<Rightarrow> bool \<Rightarrow> string \<Rightarrow> nat option" where
  "match_at r at_bol s =
     (if re_bol r \<and> \<not> at_bol then None
      else case filter (\<lambda>n. if re_eol r then n = length s else True) (match_lens (re_items r) s) of
             [] \<Rightarrow> None
           | n # ns \<Rightarrow> Some (fold max ns n))"

fun search_from :: "regex \<Rightarrow> bool \<Rightarrow> string \<Rightarrow> bool" where
  "search_from r at_bol [] = (match_at r at_bol [] \<noteq> None)"
| "search_from r at_bol (c # cs) = (match_at r at_bol (c # cs) \<noteq> None \<or> search_from r False cs)"

text \<open>\<^verbatim>\<open>[[ "$s" =~ pattern ]]\<close>: the pattern matches somewhere in the text.\<close>

definition bash_regex_match :: "string \<Rightarrow> string \<Rightarrow> bool" where
  "bash_regex_match s pattern = search_from (regex_of pattern) True s"

section \<open>The patch script \<^verbatim>\<open>fix_api_path.sh\<close>\<close>











section \<open>The publish scripts: \<^verbatim>\<open>docker-push.sh\<close> and its batch twin\<close>

text \<open>
  Both scripts print, prompt, and run two \<^verbatim>\<open>docker\<close> commands. A run is the list of what
  the script did, with how it ended. The printed lines are Chinese text; they are named
  here by what they say. The answer is the text the prompt leaves in the variable
  \<^verbatim>\<open>CONFIRM\<close> (empty when the operator just presses Enter). Neither script looks at the
  result of a \<^verbatim>\<open>docker\<close> command.
\<close>

datatype notice = Banner | Show_username string | Cancelled | Tagging | Pushing | Done

datatype event = Echo notice | Prompt | Docker_tag string string | Docker_push string

datatype ending = Ran_to_end | Exit_status nat | Exit_batch | Uninterpreted

record run =
  events :: "event list"
  ending :: ending

definition docker_push_sh :: "string \<Rightarrow> run" where
  "docker_push_sh confirm =
     (let docker_username = ''your-username'' in
      if \<not> bash_regex_match confirm ''^[Yy]$'' then
        \<lparr>events = [Echo (Show_username docker_username), Prompt, Echo Cancelled],
         ending = Exit_status 1\<rparr>
      else
        \<lparr>events = [Echo (Show_username docker_username), Prompt,
                   Echo Tagging, Docker_tag ''tgbot'' (docker_username @ ''/tgbot:latest''),
                   Echo Pushing, Docker_push (docker_username @ ''/tgbot:latest''),
                   Echo Done],
         ending = Ran_to_end\<rparr>)"

text \<open>
  The batch script is the second part of \<^verbatim>\<open>backup/docker/mongo-init.js\<close>. Its test is the
  line \<^verbatim>\<open>if /i not "%CONFIRM%"=="Y" exit /b\<close>. The command interpreter first puts the
  answer in the place of \<^verbatim>\<open>%CONFIRM%\<close> and only then reads the line: a double quote in
  the answer closes the quoted text. \<open>cmd_if\<close> reads a line of the layout
  \<^verbatim>\<open>left==right command\<close>: an operand runs to the first blank, comma, semicolon or equals
  sign outside double quotes, and both operands are compared with their quotes. Every
  other layout (blanks around the operator, an operator word, a character among
  \<^verbatim>\<open>& | < > ( ) ^\<close> outside quotes) is left uninterpreted, and so is a command other
  than the script's own \<^verbatim>\<open>exit /b\<close>: a run that ends \<open>Uninterpreted\<close> lists what
  happened up to the test and says nothing of what follows.
\<close>

definition is_delim :: "char \<Rightarrow> bool" where
  "is_delim c = (c \<in> set '' ,;='' \<or> c = CHR 0x09)"

definition is_special :: "char \<Rightarrow> bool" where
  "is_special c = (c \<in> set ''&|<>()^'')"

fun unquoted_special :: "bool \<Rightarrow> string \<Rightarrow> bool" where
  "unquoted_special quoted [] = False"
| "unquoted_special quoted (c # cs) =
     (if c = CHR 0x22 then unquoted_special (\<not> quoted) cs
      else if \<not> quoted \<and> is_special c then True
      else unquoted_special quoted cs)"

fun cmd_token :: "bool \<Rightarrow> string \<Rightarrow> string \<times> string" where
  "cmd_token quoted [] = ([], [])"
| "cmd_token quoted (c # cs) =
     (if c = CHR 0x22 then (let (t, rest) = cmd_token (\<not> quoted) cs in (c # t, rest))
      else if \<not> quoted \<and> is_delim c then ([], c # cs)
      else (let (t, rest) = cmd_token quoted cs in (c # t, rest)))"

definition upper :: "char \<Rightarrow> char" where
  "upper c =
     (case map_of (zip ''abcdefghijklmnopqrstuvwxyz'' ''ABCDEFGHIJKLMNOPQRSTUVWXYZ'') c of
        None \<Rightarrow> c
      | Some u \<Rightarrow> u)"

datatype if_result = Skipped | Then_command string | Unread

definition cmd_if :: "bool \<Rightarrow> bool \<Rightarrow> string \<Rightarrow> if_result" where
  "cmd_if ignore_case negated line =
     (if unquoted_special False line then Unread
      else
        let (left, r1) = cmd_token False line;
            (right, r2) = cmd_token False (drop 2 r1);
            command = dropWhile is_delim r2;
            equal = (if ignore_case then map upper left = map upper right else left = right)
        in if left = [] \<or> take 2 r1 \<noteq> ''=='' \<or> right = [] \<or> command = []
              \<or> map upper left \<in> set [''NOT'', ''EXIST'', ''DEFINED'', ''ERRORLEVEL'', ''CMDEXTVERSION'']
           then Unread
           else if equal \<noteq> negated then Then_command command
           else Skipped)"

definition confirm_test :: "string \<Rightarrow> string" where
  "confirm_test confirm =
     [CHR 0x22] @ confirm @ [CHR 0x22] @ ''=='' @ [CHR 0x22] @ ''Y'' @ [CHR 0x22] @ '' exit /b''"

definition docker_push_bat :: "string \<Rightarrow> run" where
  "docker_push_bat confirm =
     (let docker_username = ''diciky'';
          shown = [Echo Banner, Echo (Show_username docker_username), Prompt]
      in case cmd_if True True (confirm_test confirm) of
           Skipped \<Rightarrow>
             \<lparr>events = shown @
                [Echo Tagging, Docker_tag ''tgbot'' (docker_username @ ''/tgbot:latest''),
                 Echo Pushing, Docker_push (docker_username @ ''/tgbot:latest''),
                 Echo Done],
              ending = Ran_to_end\<rparr>
         | Then_command command \<Rightarrow>
             \<lparr>events = shown, ending = (if command = ''exit /b'' then Exit_batch else Uninterpreted)\<rparr>
         | Unread \<Rightarrow> \<lparr>events = shown, ending = Uninterpreted\<rparr>)"

text \<open>The registry-changing commands among the events of a run.\<close>

fun is_docker :: "event \<Rightarrow> bool" where
  "is_docker (Docker_tag src dst) = True"
| "is_docker (Docker_push tag) = True"
| "is_docker e = False"

definition docker_commands :: "run \<Rightarrow> event list" where
  "docker_commands r = filter is_docker (events r)"


section \<open>Notions used in the proofs\<close>



section \<open>Properties of the bootstrap\<close>

lemma mongo_init_fresh:
  "mongo_init now fresh_server =
     \<lparr>issued = mongo_init_requests now, failure = None, final = bootstrapped now\<rparr>"
  by (simp add: mongo_init_def mongo_init_requests_def fresh_server_def bootstrapped_def
      createUser_def createCollection_def createIndex_def insertOne_def put_coll_def
      get_db_def get_coll_def empty_database_def new_collection_def key_clashes_def
      index_key_def settings_doc_def admin_user_def Let_def)

lemma bootstrapped_tgbot:
  "get_db (bootstrapped now) ''tgbot'' =
     \<lparr>db_users = [admin_user],
      db_colls =
        [(''users'', \<lparr>coll_docs = [],
            coll_indexes = [\<lparr>idx_field = ''_id'', idx_unique = True\<rparr>,
                            \<lparr>idx_field = ''user_id'', idx_unique = True\<rparr>]\<rparr>),
         (''messages'', \<lparr>coll_docs = [],
            coll_indexes = [\<lparr>idx_field = ''_id'', idx_unique = True\<rparr>,
                            \<lparr>idx_field = ''message_id'', idx_unique = False\<rparr>,
                            \<lparr>idx_field = ''chat_id'', idx_unique = False\<rparr>,
                            \<lparr>idx_field = ''date'', idx_unique = False\<rparr>]\<rparr>),
         (''groups'', \<lparr>coll_docs = [],
            coll_indexes = [\<lparr>idx_field = ''_id'', idx_unique = True\<rparr>,
                            \<lparr>idx_field = ''group_id'', idx_unique = True\<rparr>]\<rparr>),
         (''settings'', \<lparr>coll_docs = [settings_doc now],
            coll_indexes = [\<lparr>idx_field = ''_id'', idx_unique = True\<rparr>]\<rparr>)]\<rparr>"
  by (simp add: bootstrapped_def get_db_def)

text \<open>
  C1. Run against a fresh store, the bootstrap script succeeds and leaves one database,
  \<^verbatim>\<open>tgbot\<close>, whose collections are exactly \<^verbatim>\<open>users\<close>, \<^verbatim>\<open>messages\<close>, \<^verbatim>\<open>groups\<close> and
  \<^verbatim>\<open>settings\<close>; \<^verbatim>\<open>settings\<close> holds exactly one document, and its \<^verbatim>\<open>_id\<close> is
  \<^verbatim>\<open>bot_settings\<close>.
\<close>

theorem bootstrap_four_collections_one_settings_document:
  "failure (mongo_init now fresh_server) = None \<and>
   dom (srv_dbs (final (mongo_init now fresh_server))) = {''tgbot''} \<and>
   collection_names (final (mongo_init now fresh_server)) ''tgbot'' =
     [''users'', ''messages'', ''groups'', ''settings''] \<and>
   map (\<lambda>d. map_of d ''_id'') (docs_of (final (mongo_init now fresh_server)) ''tgbot'' ''settings'') =
     [Some (BStr ''bot_settings'')]"
  by (simp add: mongo_init_fresh collection_names_def docs_of_def bootstrapped_tgbot get_coll_def
      settings_doc_def)
    (simp add: bootstrapped_def)

text \<open>
  C9. The only insert of the script goes to \<^verbatim>\<open>settings\<close>: after the bootstrap of a fresh
  store the collections \<^verbatim>\<open>users\<close>, \<^verbatim>\<open>messages\<close> and \<^verbatim>\<open>groups\<close> exist and hold no document.
\<close>

theorem bootstrap_inserts_into_settings_only:
  "[r \<leftarrow> mongo_init_requests now. case r of InsertOne c d \<Rightarrow> True | _ \<Rightarrow> False] =
     [InsertOne ''settings'' (settings_doc now)] \<and>
   ''users'' \<in> set (collection_names (final (mongo_init now fresh_server)) ''tgbot'') \<and>
   ''messages'' \<in> set (collection_names (final (mongo_init now fresh_server)) ''tgbot'') \<and>
   ''groups'' \<in> set (collection_names (final (mongo_init now fresh_server)) ''tgbot'') \<and>
   docs_of (final (mongo_init now fresh_server)) ''tgbot'' ''users'' = [] \<and>
   docs_of (final (mongo_init now fresh_server)) ''tgbot'' ''messages'' = [] \<and>
   docs_of (final (mongo_init now fresh_server)) ''tgbot'' ''groups'' = []"
  by (simp add: mongo_init_fresh collection_names_def docs_of_def bootstrapped_tgbot get_coll_def
      mongo_init_requests_def)

text \<open>
  C5. The seeded settings document: its \<^verbatim>\<open>_id\<close> is the string \<^verbatim>\<open>bot_settings\<close>,
  \<^verbatim>\<open>auto_delete_messages\<close> is a boolean (true), \<^verbatim>\<open>auto_delete_interval\<close> an integer (30),
  \<^verbatim>\<open>welcome_message\<close> a string and \<^verbatim>\<open>created_at\<close> the time of the run. It is the only
  document of \<^verbatim>\<open>settings\<close>, and the store takes no second document under that id.
\<close>

theorem seeded_settings_document:
  "docs_of (final (mongo_init now fresh_server)) ''tgbot'' ''settings'' =
     [[(''_id'', BStr ''bot_settings''),
       (''auto_delete_messages'', BBool True),
       (''auto_delete_interval'', BInt 30),
       (''welcome_message'', BStr welcome_message),
       (''created_at'', BDate now)]] \<and>
   map (\<lambda>(f, v). (f, bson_type_of v)) (settings_doc now) =
     [(''_id'', TString), (''auto_delete_messages'', TBool), (''auto_delete_interval'', TInt),
      (''welcome_message'', TString), (''created_at'', TDate)] \<and>
   (\<forall>fields. insertOne ''tgbot'' ''settings'' ((''_id'', BStr ''bot_settings'') # fields)
                (final (mongo_init now fresh_server)) =
              Inl (DuplicateKey ''tgbot'' ''settings'' ''_id''))"
  by (simp add: mongo_init_fresh docs_of_def bootstrapped_tgbot get_coll_def settings_doc_def
      insertOne_def key_clashes_def index_key_def)

section \<open>Unique keys under later inserts\<close>

lemma get_coll_put_same:
  "get_coll (get_db (put_coll srv dbn c k) dbn) c = k"
  by (simp add: put_coll_def get_db_def get_coll_def update_conv')

lemma get_coll_put_other:
  "dbn' \<noteq> dbn \<or> c' \<noteq> c \<Longrightarrow>
   get_coll (get_db (put_coll srv dbn' c' k) dbn) c = get_coll (get_db srv dbn) c"
  by (auto simp add: put_coll_def get_db_def get_coll_def update_conv')

lemma get_db_next_oid:
  "get_db (srv\<lparr>srv_next_oid := n\<rparr>) dbn = get_db srv dbn"
  by (simp add: get_db_def)

lemma index_key_generated_id:
  "f \<noteq> ''_id'' \<Longrightarrow> index_key f ((''_id'', v) # doc) = index_key f doc"
  by (simp add: index_key_def)

lemma insertOne_keeps_unique:
  assumes inv: "keeps_unique srv dbn c f" and ok: "insertOne dbn' c' doc srv = Inr srv'"
  shows "keeps_unique srv' dbn c f"
proof (cases "dbn' = dbn \<and> c' = c")
  case False
  then have "get_coll (get_db srv' dbn) c = get_coll (get_db srv dbn) c"
    using ok
    by (auto simp add: insertOne_def Let_def get_coll_put_other get_db_next_oid
        split: list.splits if_splits)
  then show ?thesis using inv by (simp add: keeps_unique_def docs_of_def)
next
  case True
  define k where "k = get_coll (get_db srv dbn) c"
  define stored where
    "stored = (if map_of doc ''_id'' = None then (''_id'', BObjectId (srv_next_oid srv)) # doc else doc)"
  from inv obtain i where i: "i \<in> set (coll_indexes k)" "idx_field i = f" "idx_unique i"
    by (auto simp add: keeps_unique_def k_def)
  from ok True have none: "key_clashes k stored = []"
    by (auto simp add: insertOne_def Let_def k_def stored_def split: list.splits)
  from ok True have k': "get_coll (get_db srv' dbn) c = k\<lparr>coll_docs := coll_docs k @ [stored]\<rparr>"
    by (auto simp add: insertOne_def Let_def k_def stored_def get_coll_put_same get_db_next_oid
        split: list.splits)
  from none i have "index_key f stored \<notin> set (map (index_key f) (coll_docs k))"
    by (auto simp add: key_clashes_def filter_empty_conv)
  then show ?thesis using inv i k'
    by (auto simp add: keeps_unique_def docs_of_def k_def)
qed

lemma apply_inserts_keeps_unique:
  "keeps_unique srv dbn c f \<Longrightarrow> keeps_unique (apply_inserts ops srv) dbn c f"
proof (induction ops srv rule: apply_inserts.induct)
  case (1 srv)
  then show ?case by simp
next
  case (2 dbn' c' doc rest srv)
  have "keeps_unique (attempt (insertOne dbn' c' doc) srv) dbn c f"
    using "2.prems" by (auto simp add: attempt_def insertOne_keeps_unique split: sum.splits)
  then show ?case using "2.IH" by simp
qed

lemma duplicate_key_rejected:
  assumes inv: "keeps_unique srv dbn c f"
    and d: "d \<in> set (docs_of srv dbn c)" and same: "index_key f d' = index_key f d"
    and f: "f \<noteq> ''_id''"
  shows "\<exists>g. insertOne dbn c d' srv = Inl (DuplicateKey dbn c g)"
proof -
  define k where "k = get_coll (get_db srv dbn) c"
  define stored where
    "stored = (if map_of d' ''_id'' = None then (''_id'', BObjectId (srv_next_oid srv)) # d' else d')"
  from inv obtain i where i: "i \<in> set (coll_indexes k)" "idx_field i = f" "idx_unique i"
    by (auto simp add: keeps_unique_def k_def)
  have "index_key f stored = index_key f d"
    using same f by (simp add: stored_def index_key_generated_id)
  then have "i \<in> set (key_clashes k stored)"
    using i d by (auto simp add: key_clashes_def docs_of_def k_def)
  then obtain j js where "key_clashes k stored = j # js"
    by (cases "key_clashes k stored") auto
  then show ?thesis by (simp add: insertOne_def Let_def k_def stored_def)
qed

lemma bootstrapped_keeps_unique:
  "keeps_unique (bootstrapped now) ''tgbot'' ''users'' ''user_id'' \<and>
   keeps_unique (bootstrapped now) ''tgbot'' ''groups'' ''group_id''"
  by (simp add: keeps_unique_def bootstrapped_tgbot get_coll_def docs_of_def)

text \<open>
  C2. In every state that insert attempts lead to from the bootstrapped database, no two
  documents of \<^verbatim>\<open>users\<close> share a \<^verbatim>\<open>user_id\<close> and no two documents of \<^verbatim>\<open>groups\<close> share a
  \<^verbatim>\<open>group_id\<close>; and inserting a document whose \<^verbatim>\<open>user_id\<close> (\<^verbatim>\<open>group_id\<close>) is that of a
  document already there fails with a duplicate-key error and leaves the server as it was.
\<close>

theorem unique_indexes_reject_duplicates:
  assumes "srv = apply_inserts ops (final (mongo_init now fresh_server))"
  shows "distinct (map (index_key ''user_id'') (docs_of srv ''tgbot'' ''users'')) \<and>
         distinct (map (index_key ''group_id'') (docs_of srv ''tgbot'' ''groups'')) \<and>
         (\<forall>d \<in> set (docs_of srv ''tgbot'' ''users''). \<forall>d'.
            index_key ''user_id'' d' = index_key ''user_id'' d \<longrightarrow>
              (\<exists>g. insertOne ''tgbot'' ''users'' d' srv = Inl (DuplicateKey ''tgbot'' ''users'' g)) \<and>
              attempt (insertOne ''tgbot'' ''users'' d') srv = srv) \<and>
         (\<forall>d \<in> set (docs_of srv ''tgbot'' ''groups''). \<forall>d'.
            index_key ''group_id'' d' = index_key ''group_id'' d \<longrightarrow>
              (\<exists>g. insertOne ''tgbot'' ''groups'' d' srv = Inl (DuplicateKey ''tgbot'' ''groups'' g)) \<and>
              attempt (insertOne ''tgbot'' ''groups'' d') srv = srv)"
proof -
  have u: "keeps_unique srv ''tgbot'' ''users'' ''user_id''"
    and g: "keeps_unique srv ''tgbot'' ''groups'' ''group_id''"
    using assms bootstrapped_keeps_unique [of now]
    by (simp_all add: mongo_init_fresh apply_inserts_keeps_unique)
  have users: "(\<exists>e. insertOne ''tgbot'' ''users'' d' srv = Inl (DuplicateKey ''tgbot'' ''users'' e)) \<and>
      attempt (insertOne ''tgbot'' ''users'' d') srv = srv"
    if "d \<in> set (docs_of srv ''tgbot'' ''users'')"
      and "index_key ''user_id'' d' = index_key ''user_id'' d" for d d'
    using duplicate_key_rejected [OF u that] by (auto simp add: attempt_def)
  have groups: "(\<exists>e. insertOne ''tgbot'' ''groups'' d' srv = Inl (DuplicateKey ''tgbot'' ''groups'' e)) \<and>
      attempt (insertOne ''tgbot'' ''groups'' d') srv = srv"
    if "d \<in> set (docs_of srv ''tgbot'' ''groups'')"
      and "index_key ''group_id'' d' = index_key ''group_id'' d" for d d'
    using duplicate_key_rejected [OF g that] by (auto simp add: attempt_def)
  from u g users groups show ?thesis
    by (simp add: keeps_unique_def)
qed

theorem unique_indexes_reject_duplicates_witness:
  "[(''_id'', BObjectId 0), (''user_id'', BInt 7)] \<in>
     set (docs_of (apply_inserts [(''tgbot'', ''users'', [(''user_id'', BInt 7)])]
                     (final (mongo_init 0 fresh_server))) ''tgbot'' ''users'') \<and>
   (\<exists>g. insertOne ''tgbot'' ''users'' [(''user_id'', BInt 7), (''name'', BStr ''second'')]
          (apply_inserts [(''tgbot'', ''users'', [(''user_id'', BInt 7)])]
             (final (mongo_init 0 fresh_server))) =
        Inl (DuplicateKey ''tgbot'' ''users'' g)) \<and>
   attempt (insertOne ''tgbot'' ''users'' [(''user_id'', BInt 7), (''name'', BStr ''second'')])
     (apply_inserts [(''tgbot'', ''users'', [(''user_id'', BInt 7)])]
        (final (mongo_init 0 fresh_server))) =
   apply_inserts [(''tgbot'', ''users'', [(''user_id'', BInt 7)])] (final (mongo_init 0 fresh_server))"
proof -
  let ?srv = "apply_inserts [(''tgbot'', ''users'', [(''user_id'', BInt 7)])]
                (final (mongo_init 0 fresh_server))"
  have stored: "[(''_id'', BObjectId 0), (''user_id'', BInt 7)] \<in> set (docs_of ?srv ''tgbot'' ''users'')"
    by (simp add: mongo_init_fresh attempt_def insertOne_def bootstrapped_def get_db_def
        get_coll_def put_coll_def key_clashes_def index_key_def docs_of_def)
  have same: "index_key ''user_id'' [(''user_id'', BInt 7), (''name'', BStr ''second'')] =
      index_key ''user_id'' [(''_id'', BObjectId 0), (''user_id'', BInt 7)]"
    by (simp add: index_key_def)
  from unique_indexes_reject_duplicates [OF refl, of "[(''tgbot'', ''users'', [(''user_id'', BInt 7)])]" 0]
    stored same
  show ?thesis by blast
qed

section \<open>Running the bootstrap again\<close>

lemma run_script_prefix: "prefix (issued (run_script dbn rs srv)) rs"
  by (induction rs arbitrary: srv) (auto simp add: Let_def split: sum.splits)

lemma run_script_first:
  "issued (run_script dbn (r # rs) srv) = r # tl (issued (run_script dbn (r # rs) srv))"
  by (auto simp add: Let_def split: sum.splits)

lemma mongo_init_again:
  "mongo_init now' (bootstrapped now) =
     \<lparr>issued = [CreateUser admin_user], failure = Some (UserAlreadyExists ''admin''),
      final = bootstrapped now\<rparr>"
  by (simp add: mongo_init_def mongo_init_requests_def createUser_def bootstrapped_tgbot
      admin_user_def)

text \<open>
  C4, as amended. The script has no skip-if-exists branch: whatever the state of the
  server, the calls it issues are an initial part of the same fixed list, starting with
  \<^verbatim>\<open>createUser\<close>, and it stops only at a call that throws. Run a second time on the
  database it initialised, it issues \<^verbatim>\<open>createUser\<close> again; the call throws (the user
  exists), the script ends there with the server as it was, and the
  \<^verbatim>\<open>createCollection\<close> calls are not reached. On a store where only the collection
  \<^verbatim>\<open>users\<close> exists, \<^verbatim>\<open>createUser\<close> succeeds and the unguarded
  \<^verbatim>\<open>createCollection('users')\<close> is what throws.
\<close>

theorem bootstrap_rerun_stops_at_create_user:
  "prefix (issued (mongo_init now srv)) (mongo_init_requests now) \<and>
   hd (issued (mongo_init now srv)) = CreateUser admin_user \<and>
   issued (mongo_init now' (final (mongo_init now fresh_server))) = [CreateUser admin_user] \<and>
   failure (mongo_init now' (final (mongo_init now fresh_server))) = Some (UserAlreadyExists ''admin'') \<and>
   final (mongo_init now' (final (mongo_init now fresh_server))) = final (mongo_init now fresh_server) \<and>
   issued (mongo_init now (attempt (createCollection ''tgbot'' ''users'') fresh_server)) =
     [CreateUser admin_user, CreateCollection ''users''] \<and>
   failure (mongo_init now (attempt (createCollection ''tgbot'' ''users'') fresh_server)) =
     Some (NamespaceExists ''tgbot'' ''users'')"
proof -
  have "prefix (issued (mongo_init now srv)) (mongo_init_requests now)"
    by (simp add: mongo_init_def run_script_prefix)
  moreover have "hd (issued (mongo_init now srv)) = CreateUser admin_user"
    unfolding mongo_init_def mongo_init_requests_def by (subst run_script_first) simp
  moreover have "mongo_init now (attempt (createCollection ''tgbot'' ''users'') fresh_server) =
      \<lparr>issued = [CreateUser admin_user, CreateCollection ''users''],
       failure = Some (NamespaceExists ''tgbot'' ''users''),
       final = attempt (createUser ''tgbot'' admin_user)
                 (attempt (createCollection ''tgbot'' ''users'') fresh_server)\<rparr>"
    by (simp add: mongo_init_def mongo_init_requests_def attempt_def createCollection_def
        createUser_def fresh_server_def get_db_def empty_database_def put_coll_def)
  ultimately show ?thesis
    by (simp add: mongo_init_fresh mongo_init_again)
qed

text \<open>
  The claim as it was stated fails on the second run: none of the four
  \<^verbatim>\<open>createCollection\<close> calls is issued then.
\<close>

theorem bootstrap_rerun_issues_no_create_collection:
  "CreateCollection ''users'' \<notin> set (issued (mongo_init 1 (final (mongo_init 0 fresh_server)))) \<and>
   CreateCollection ''messages'' \<notin> set (issued (mongo_init 1 (final (mongo_init 0 fresh_server)))) \<and>
   CreateCollection ''groups'' \<notin> set (issued (mongo_init 1 (final (mongo_init 0 fresh_server)))) \<and>
   CreateCollection ''settings'' \<notin> set (issued (mongo_init 1 (final (mongo_init 0 fresh_server))))"
  by (simp add: mongo_init_fresh mongo_init_again)

section \<open>Properties of the container build\<close>

lemma parse_decimal_append:
  "parse_decimal acc (xs @ ys) =
     (case parse_decimal acc xs of None \<Rightarrow> None | Some a \<Rightarrow> parse_decimal a ys)"
  by (induction xs arbitrary: acc) auto

lemma parse_decimal_decimal: "parse_decimal 0 (decimal n) = Some n"
proof (induction n rule: decimal.induct)
  case (1 n)
  show ?case
  proof (cases "n < 10")
    case True
    then show ?thesis by (simp add: decimal.simps [of n] is_digit_def)
  next
    case False
    with 1 have ih: "parse_decimal 0 (decimal (n div 10)) = Some (n div 10)" by simp
    have d: "n mod 10 < 10" by simp
    show ?thesis
      using False ih d by (simp add: decimal.simps [of n] parse_decimal_append is_digit_def)
  qed
qed

lemma decimal_nonempty: "decimal n \<noteq> []"
  by (simp add: decimal.simps [of n])

lemma parse_port_decimal:
  "parse_port (decimal p) = (if p \<le> 65535 then Some p else None)"
  by (simp add: parse_port_def decimal_nonempty parse_decimal_decimal)

lemma docker_build_given:
  "docker_build (Some p) =
     (if p \<le> 65535 then
        Inr \<lparr>img_base = ''python:3.11-slim'', img_workdir = ''/app'',
             img_env = [(''TZ'', ''Asia/Shanghai''), (''WEB_PORT'', decimal p)],
             img_exposed = [p], img_cmd = [''python'', ''main.py'']\<rparr>
      else Inl (InvalidContainerPort (decimal p)))"
  by (simp add: docker_build_def dockerfile_def scratch_state_def lookup_var_def parse_port_decimal)

lemma docker_build_default:
  "docker_build None =
     Inr \<lparr>img_base = ''python:3.11-slim'', img_workdir = ''/app'',
          img_env = [(''TZ'', ''Asia/Shanghai''), (''WEB_PORT'', ''7000'')],
          img_exposed = [7000], img_cmd = [''python'', ''main.py'']\<rparr>"
  by (simp add: docker_build_def dockerfile_def scratch_state_def lookup_var_def parse_port_def
      is_digit_def)

text \<open>
  C6. Every image built with the build argument \<^verbatim>\<open>WEB_PORT=p\<close> exposes exactly the port
  \<open>p\<close>, has \<^verbatim>\<open>WEB_PORT\<close> set to \<open>p\<close> in its environment and starts
  \<^verbatim>\<open>python main.py\<close>; an image is built for every port number \<open>p\<close> (up to 65535).
  Without the argument the image exposes exactly 7000, with the same start command.
\<close>

theorem dockerfile_exposes_web_port:
  "(docker_build (Some p) = Inr img \<longrightarrow>
      img_exposed img = [p] \<and> map_of (img_env img) ''WEB_PORT'' = Some (decimal p) \<and>
      img_cmd img = [''python'', ''main.py'']) \<and>
   (p \<le> 65535 \<longrightarrow> (\<exists>built. docker_build (Some p) = Inr built)) \<and>
   (\<exists>built. docker_build None = Inr built \<and>
      img_exposed built = [7000] \<and> map_of (img_env built) ''WEB_PORT'' = Some ''7000'' \<and>
      img_cmd built = [''python'', ''main.py''])"
  by (auto simp add: docker_build_given docker_build_default split: if_splits)

theorem dockerfile_exposes_web_port_witness:
  "docker_build (Some 8080) =
     Inr \<lparr>img_base = ''python:3.11-slim'', img_workdir = ''/app'',
          img_env = [(''TZ'', ''Asia/Shanghai''), (''WEB_PORT'', ''8080'')],
          img_exposed = [8080], img_cmd = [''python'', ''main.py'']\<rparr> \<and>
   img_exposed \<lparr>img_base = ''python:3.11-slim'', img_workdir = ''/app'',
          img_env = [(''TZ'', ''Asia/Shanghai''), (''WEB_PORT'', ''8080'')],
          img_exposed = [8080], img_cmd = [''python'', ''main.py'']\<rparr> = [8080] \<and>
   (\<exists>built. docker_build (Some 8080) = Inr built)"
proof -
  have dec: "decimal 8080 = ''8080''"
    by (simp add: decimal.simps [of 8080] decimal.simps [of 808] decimal.simps [of 80]
        decimal.simps [of 8] char_of_def bit_iff_odd)
  have built: "docker_build (Some 8080) =
     Inr \<lparr>img_base = ''python:3.11-slim'', img_workdir = ''/app'',
          img_env = [(''TZ'', ''Asia/Shanghai''), (''WEB_PORT'', ''8080'')],
          img_exposed = [8080], img_cmd = [''python'', ''main.py'']\<rparr>"
    by (simp add: docker_build_given dec)
  from dockerfile_exposes_web_port [of 8080
      "\<lparr>img_base = ''python:3.11-slim'', img_workdir = ''/app'',
        img_env = [(''TZ'', ''Asia/Shanghai''), (''WEB_PORT'', ''8080'')],
        img_exposed = [8080], img_cmd = [''python'', ''main.py'']\<rparr>"] built
  show ?thesis by simp
qed

section \<open>Properties of the patch script\<close>
































section \<open>Properties of the publish scripts\<close>

lemma regex_of_confirm:
  "regex_of ''^[Yy]$'' = \<lparr>re_bol = True, re_items = [One (Bracket ''Yy'')], re_eol = True\<rparr>"
  by (simp add: regex_of_def)

lemma search_from_anchored: "re_bol r \<Longrightarrow> \<not> search_from r False s"
  by (induction s) (simp_all add: match_at_def)

lemma bash_confirm_match:
  "bash_regex_match c ''^[Yy]$'' = (c = ''Y'' \<or> c = ''y'')"
proof (cases c)
  case Nil
  then show ?thesis by (simp add: bash_regex_match_def regex_of_confirm match_at_def)
next
  case (Cons x xs)
  show ?thesis
  proof (cases xs)
    case Nil
    then show ?thesis using Cons
      by (auto simp add: bash_regex_match_def regex_of_confirm match_at_def search_from_anchored)
  next
    case (Cons y ys)
    then show ?thesis using \<open>c = x # xs\<close>
      by (auto simp add: bash_regex_match_def regex_of_confirm match_at_def search_from_anchored)
  qed
qed

lemma docker_push_sh_run:
  "docker_push_sh c =
     (if c = ''Y'' \<or> c = ''y'' then
        \<lparr>events = [Echo (Show_username ''your-username''), Prompt,
                   Echo Tagging, Docker_tag ''tgbot'' ''your-username/tgbot:latest'',
                   Echo Pushing, Docker_push ''your-username/tgbot:latest'', Echo Done],
         ending = Ran_to_end\<rparr>
      else
        \<lparr>events = [Echo (Show_username ''your-username''), Prompt, Echo Cancelled],
         ending = Exit_status 1\<rparr>)"
  by (simp add: docker_push_sh_def bash_confirm_match)

lemma cmd_token_in_quotes:
  "CHR 0x22 \<notin> set c \<Longrightarrow>
   cmd_token True (c @ CHR 0x22 # rest) =
     (case cmd_token False rest of (t, r) \<Rightarrow> (c @ CHR 0x22 # t, r))"
  by (induction c) (auto split: prod.splits)

lemma unquoted_special_in_quotes:
  "CHR 0x22 \<notin> set c \<Longrightarrow>
   unquoted_special True (c @ CHR 0x22 # rest) = unquoted_special False rest"
  by (induction c) auto

lemma upper_is_Y: "(upper x = CHR ''Y'') = (x = CHR ''Y'' \<or> x = CHR ''y'')"
  by (auto simp add: upper_def split: if_splits)

lemma upper_quote: "upper (CHR 0x22) = CHR 0x22"
  by (simp add: upper_def)

lemma quoted_equal_Y:
  "(map upper c @ [CHR 0x22] = [CHR ''Y'', CHR 0x22]) = (c = ''Y'' \<or> c = ''y'')"
proof (cases c)
  case Nil
  then show ?thesis by simp
next
  case (Cons x xs)
  then show ?thesis by (cases xs) (auto simp add: upper_is_Y)
qed

lemma cmd_if_confirm:
  assumes "CHR 0x22 \<notin> set c"
  shows "cmd_if True True (confirm_test c) =
     (if c = ''Y'' \<or> c = ''y'' then Skipped else Then_command ''exit /b'')"
proof -
  have special: "\<not> unquoted_special False (confirm_test c)"
    using assms by (simp add: confirm_test_def unquoted_special_in_quotes is_special_def)
  have left: "cmd_token False (confirm_test c) =
      (CHR 0x22 # c @ [CHR 0x22], [CHR ''='', CHR ''='', CHR 0x22, CHR ''Y'', CHR 0x22] @ '' exit /b'')"
    using assms by (simp add: confirm_test_def cmd_token_in_quotes is_delim_def)
  have right: "cmd_token False (drop 2 ([CHR ''='', CHR ''='', CHR 0x22, CHR ''Y'', CHR 0x22] @ '' exit /b'')) =
      ([CHR 0x22, CHR ''Y'', CHR 0x22], '' exit /b'')"
    by (simp add: is_delim_def)
  show ?thesis
    unfolding cmd_if_def
    by (simp only: special left right if_False Let_def prod.case)
      (simp add: is_delim_def upper_quote quoted_equal_Y upper_def)
qed

lemma docker_push_bat_run:
  assumes "CHR 0x22 \<notin> set c"
  shows "docker_push_bat c =
     (if c = ''Y'' \<or> c = ''y'' then
        \<lparr>events = [Echo Banner, Echo (Show_username ''diciky''), Prompt,
                   Echo Tagging, Docker_tag ''tgbot'' ''diciky/tgbot:latest'',
                   Echo Pushing, Docker_push ''diciky/tgbot:latest'', Echo Done],
         ending = Ran_to_end\<rparr>
      else
        \<lparr>events = [Echo Banner, Echo (Show_username ''diciky''), Prompt], ending = Exit_batch\<rparr>)"
  by (simp add: docker_push_bat_def cmd_if_confirm [OF assms])



text \<open>
  C3 fails for the batch script. With the answer \<^verbatim>\<open>N"=="N" rem \<close> the test line reads
  \<^verbatim>\<open>if /i not "N"=="N" rem "=="Y" exit /b\<close>: the comparison is between \<^verbatim>\<open>"N"\<close> and \<^verbatim>\<open>"N"\<close>,
  \<^verbatim>\<open>exit /b\<close> has become the text of a remark, and the script goes on to tag and push.
  The shell script stops on the same answer.
\<close>

theorem batch_confirmation_bypassed:
  "confirm_test (''N'' @ [CHR 0x22] @ ''=='' @ [CHR 0x22] @ ''N'' @ [CHR 0x22] @ '' rem '') =
     [CHR 0x22] @ ''N'' @ [CHR 0x22] @ ''=='' @ [CHR 0x22] @ ''N'' @ [CHR 0x22] @ '' rem '' @
     [CHR 0x22] @ ''=='' @ [CHR 0x22] @ ''Y'' @ [CHR 0x22] @ '' exit /b'' \<and>
   docker_push_bat (''N'' @ [CHR 0x22] @ ''=='' @ [CHR 0x22] @ ''N'' @ [CHR 0x22] @ '' rem '') =
     \<lparr>events = [Echo Banner, Echo (Show_username ''diciky''), Prompt,
                Echo Tagging, Docker_tag ''tgbot'' ''diciky/tgbot:latest'',
                Echo Pushing, Docker_push ''diciky/tgbot:latest'', Echo Done],
      ending = Ran_to_end\<rparr> \<and>
   docker_commands (docker_push_sh (''N'' @ [CHR 0x22] @ ''=='' @ [CHR 0x22] @ ''N'' @ [CHR 0x22] @ '' rem '')) = []"
  by (simp add: confirm_test_def docker_push_bat_def cmd_if_def is_special_def is_delim_def
      upper_def docker_push_sh_run docker_commands_def)

text \<open>
  What does hold of the confirmation: the shell script stops, with exit status 1 and no
  docker command, on every answer other than \<^verbatim>\<open>Y\<close> and \<^verbatim>\<open>y\<close>.
\<close>

theorem docker_push_sh_refuses:
  "c \<noteq> ''Y'' \<and> c \<noteq> ''y'' \<longrightarrow>
   docker_commands (docker_push_sh c) = [] \<and> ending (docker_push_sh c) = Exit_status 1"
  by (simp add: docker_push_sh_run docker_commands_def)

theorem docker_push_sh_refuses_witness:
  "''n'' \<noteq> ''Y'' \<and> ''n'' \<noteq> ''y'' \<and>
   docker_commands (docker_push_sh ''n'') = [] \<and> ending (docker_push_sh ''n'') = Exit_status 1"
  using docker_push_sh_refuses [of "''n''"] by simp

text \<open>
  The batch script stops, with no docker command, on every answer other than \<^verbatim>\<open>Y\<close> and
  \<^verbatim>\<open>y\<close> that holds no double quote.
\<close>

theorem docker_push_bat_refuses_plain_answers:
  "CHR 0x22 \<notin> set c \<and> c \<noteq> ''Y'' \<and> c \<noteq> ''y'' \<longrightarrow>
   docker_commands (docker_push_bat c) = [] \<and> ending (docker_push_bat c) = Exit_batch"
  by (simp add: docker_push_bat_run docker_commands_def)

theorem docker_push_bat_refuses_plain_answers_witness:
  "CHR 0x22 \<notin> set ''no'' \<and> ''no'' \<noteq> ''Y'' \<and> ''no'' \<noteq> ''y'' \<and>
   docker_commands (docker_push_bat ''no'') = [] \<and> ending (docker_push_bat ''no'') = Exit_batch"
  using docker_push_bat_refuses_plain_answers [of "''no''"] by simp

end
